theory Spec2Isabelle
  imports Complex_Main "HOL-Library.Word"
begin

section \<open>JavaScript values\<close>

text \<open>
  A JavaScript string is a sequence of UTF-16 code units. String literals of the source
  are ASCII and are written with \<open>lit\<close>.
\<close>

type_synonym js_string = "16 word list"

definition lit :: "string \<Rightarrow> js_string" where
  "lit s = map (\<lambda>c. of_nat (of_char c)) s"

text \<open>
  The values that \<open>response.json()\<close> and \<open>req.json()\<close> produce. A number is identified
  with the decimal value that denotes it, so that a comparison with a numeric literal of
  the source is the comparison of the two values. An object lists its properties, each
  name once. A property that is missing, and the value \<open>undefined\<close>, is \<open>None\<close> of
  \<open>json option\<close>.
\<close>

datatype json =
    JNull
  | JBool bool
  | JNum real
  | JStr js_string
  | JArr "json list"
  | JObj "(js_string \<times> json) list"

text \<open>
  A thrown value: an \<open>Error\<close> object with its message, or anything else. The handlers
  only distinguish the two (\<open>error instanceof Error\<close>).
\<close>

datatype js_exn = Error js_string | NonError

definition bind_exn :: "js_exn + 'a \<Rightarrow> ('a \<Rightarrow> js_exn + 'b) \<Rightarrow> js_exn + 'b" where
  "bind_exn m f = (case m of Inl e \<Rightarrow> Inl e | Inr x \<Rightarrow> f x)"

text \<open>
  Property access \<open>v.k\<close> for the property names the source reads: an own property of an
  object, \<open>undefined\<close> on every other value except \<open>null\<close>, where it throws a TypeError.
\<close>

definition get :: "json \<Rightarrow> js_string \<Rightarrow> json option" where
  "get v k = (case v of JObj kvs \<Rightarrow> map_of kvs k | _ \<Rightarrow> None)"

definition read_prop :: "json \<Rightarrow> js_string \<Rightarrow> js_exn + json option" where
  "read_prop v k =
     (if v = JNull
      then Inl (Error (lit ''Cannot read properties of null (reading ''
                         @ [0x27] @ k @ [0x27] @ lit '')''))
      else Inr (get v k))"

text \<open>Optional chaining \<open>v?.k\<close>: \<open>undefined\<close> on \<open>null\<close> instead of throwing.\<close>

definition opt_chain :: "json \<Rightarrow> js_string \<Rightarrow> json option" where
  "opt_chain v k = (if v = JNull then None else get v k)"

text \<open>ToBoolean, as \<open>!x\<close>, \<open>x || y\<close>, \<open>x && y\<close> and \<open>if (x)\<close> use it.\<close>

fun truthy :: "json option \<Rightarrow> bool" where
  "truthy None = False"
| "truthy (Some JNull) = False"
| "truthy (Some (JBool b)) = b"
| "truthy (Some (JNum r)) = (r \<noteq> 0)"
| "truthy (Some (JStr s)) = (s \<noteq> [])"
| "truthy (Some (JArr xs)) = True"
| "truthy (Some (JObj kvs)) = True"

text \<open>\<open>x || d\<close> for a default \<open>d\<close> that is a value.\<close>

definition or_else :: "json option \<Rightarrow> json \<Rightarrow> json" where
  "or_else x d = (if truthy x then the x else d)"

text \<open>
  An object literal of the source, as \<open>JSON.stringify\<close> writes it: a property whose
  value is \<open>undefined\<close> is left out.
\<close>

definition object :: "(js_string \<times> json option) list \<Rightarrow> json" where
  "object fields = JObj (concat (map (\<lambda>(k, v). case v of None \<Rightarrow> [] | Some x \<Rightarrow> [(k, x)]) fields))"

section \<open>HTTP\<close>

record http_request =
  url :: js_string
  http_method :: js_string
  headers :: "(js_string \<times> js_string) list"
  body :: "json option"

text \<open>
  A response: its status code and what \<open>response.json()\<close> gives, which throws when the
  body is not JSON text.
\<close>

record http_response =
  status :: nat
  body_json :: "js_exn + json"

definition ok :: "http_response \<Rightarrow> bool" where
  "ok r = (200 \<le> status r \<and> status r \<le> 299)"

text \<open>The response with status \<open>st\<close> whose body is the JSON text of \<open>data\<close>.\<close>

definition json_response :: "json \<Rightarrow> nat \<Rightarrow> http_response" where
  "json_response data st = \<lparr>status = st, body_json = Inr data\<rparr>"

text \<open>
  \<open>NextResponse.json(data, { status })\<close>; the status is 200 when none is given. The
  response is built by the \<open>Response\<close> constructor, which throws a RangeError for a
  status outside 200 to 599, and a TypeError when a response with a body is given a
  null body status (of which 204, 205 and 304 are in that range).
\<close>

definition null_body_status :: "nat \<Rightarrow> bool" where
  "null_body_status st = (st \<in> set [101, 103, 204, 205, 304])"

definition NextResponse_json :: "json \<Rightarrow> nat \<Rightarrow> js_exn + http_response" where
  "NextResponse_json data st =
     (if st < 200 \<or> 599 < st
      then Inl (Error (lit ''init['' @ [0x22] @ lit ''status'' @ [0x22]
                         @ lit ''] must be in the range of 200 to 599, inclusive.''))
      else if null_body_status st
      then Inl (Error (lit ''Response constructor: Invalid response status code ''
                         @ (if st = 204 then lit ''204'' else if st = 205 then lit ''205''
                            else lit ''304'')))
      else Inr (json_response data st))"

section \<open>The proxy route\<close>

text \<open>
  What a handler of \<open>route.ts\<close> reads from its surroundings: the two environment
  variables, and the answer of the network to each request that \<open>fetch\<close> sends (a thrown
  error when the request cannot be completed).
\<close>

record proxy_env =
  API_KEY :: "js_string option"
  NEXT_PUBLIC_BACKEND_URL :: "js_string option"
  fetch :: "http_request \<Rightarrow> js_exn + http_response"

definition env_text :: "js_string option \<Rightarrow> js_string" where
  "env_text v = (case v of None \<Rightarrow> lit ''undefined'' | Some s \<Rightarrow> s)"

definition proxy_headers :: "proxy_env \<Rightarrow> (js_string \<times> js_string) list" where
  "proxy_headers env =
     (lit ''Content-Type'', lit ''application/json'') #
     (case API_KEY env of
        None \<Rightarrow> []
      | Some k \<Rightarrow> if k \<noteq> [] then [(lit ''X-API-Key'', k)] else [])"

definition health_request :: "proxy_env \<Rightarrow> http_request" where
  "health_request env =
     \<lparr>url = env_text (NEXT_PUBLIC_BACKEND_URL env) @ lit ''/health'',
      http_method = lit ''GET'', headers = proxy_headers env, body = None\<rparr>"

definition generate_request :: "proxy_env \<Rightarrow> json \<Rightarrow> http_request" where
  "generate_request env b =
     \<lparr>url = env_text (NEXT_PUBLIC_BACKEND_URL env) @ lit ''/generate-report'',
      http_method = lit ''POST'', headers = proxy_headers env, body = Some b\<rparr>"

definition job_status_request :: "proxy_env \<Rightarrow> js_string \<Rightarrow> http_request" where
  "job_status_request env jobId =
     \<lparr>url = env_text (NEXT_PUBLIC_BACKEND_URL env) @ lit ''/job-status/'' @ jobId,
      http_method = lit ''GET'', headers = proxy_headers env, body = None\<rparr>"

text \<open>
  The \<open>catch\<close> block of both handlers. Its status 500 is one that \<open>NextResponse.json\<close>
  accepts, so the block returns the response.
\<close>

definition error_message :: "js_exn \<Rightarrow> js_string" where
  "error_message e = (case e of Error m \<Rightarrow> m | NonError \<Rightarrow> lit ''An unknown error occurred'')"

definition catch_500 :: "js_exn \<Rightarrow> http_response" where
  "catch_500 e = json_response (object [(lit ''detail'', Some (JStr (error_message e)))]) 500"

text \<open>
  The \<open>try\<close> block of \<open>POST\<close>; \<open>Inl\<close> is an exception that leaves the block. The argument
  \<open>req_json\<close> is the outcome of \<open>req.json()\<close>.
\<close>

definition POST_try :: "proxy_env \<Rightarrow> js_exn + json \<Rightarrow> js_exn + http_response" where
  "POST_try env req_json =
     bind_exn req_json (\<lambda>body.
       if \<not> truthy (opt_chain body (lit ''topic''))
       then (NextResponse_json (object [(lit ''detail'', Some (JStr (lit ''Topic is required'')))]) 400)
       else
         bind_exn (fetch env (health_request env)) (\<lambda>healthResponse.
           if \<not> ok healthResponse
           then (NextResponse_json
                  (object [(lit ''detail'', Some (JStr (lit ''Backend service unavailable''))),
                           (lit ''serverStatus'', Some (JStr (lit ''unavailable'')))])
                  503)
           else
             bind_exn (body_json healthResponse) (\<lambda>healthData.
             bind_exn (read_prop healthData (lit ''server_status'')) (\<lambda>server_status.
               if server_status = Some (JStr (lit ''busy''))
               then (NextResponse_json
                      (object [(lit ''detail'', Some (JStr (lit
                                  ''Server is currently at maximum capacity. Please try again later.''))),
                               (lit ''serverStatus'', Some (JStr (lit ''busy''))),
                               (lit ''currentLoad'', get healthData (lit ''current_load'')),
                               (lit ''maxCapacity'', get healthData (lit ''max_capacity''))])
                      429)
               else if truthy (get healthData (lit ''is_warming_up''))
               then (NextResponse_json
                      (object [(lit ''detail'', Some (JStr (lit
                                  ''Server is currently warming up. Please try again in 30 seconds.''))),
                               (lit ''serverStatus'', Some (JStr (lit ''warming'')))])
                      503)
               else
                 bind_exn (fetch env (generate_request env body)) (\<lambda>response.
                   if \<not> ok response
                   then
                     bind_exn (body_json response) (\<lambda>errorData.
                     bind_exn (read_prop errorData (lit ''detail'')) (\<lambda>detail.
                       (NextResponse_json
                         (object [(lit ''detail'',
                            Some (or_else detail (JStr (lit ''Failed to start report generation''))))])
                         (status response))))
                   else
                     bind_exn (body_json response) (\<lambda>jobData.
                       (NextResponse_json jobData 200)))))))"

definition POST :: "proxy_env \<Rightarrow> js_exn + json \<Rightarrow> http_response" where
  "POST env req_json = (case POST_try env req_json of Inl e \<Rightarrow> catch_500 e | Inr r \<Rightarrow> r)"

text \<open>
  The \<open>try\<close> block of \<open>GET\<close>. The argument \<open>req_url\<close> is the outcome of
  \<open>new URL(req.url)\<close>, a URL being given by its query parameters in order;
  \<open>searchParams.get\<close> returns the first value of a name, or \<open>null\<close>.
\<close>

definition GET_try ::
  "proxy_env \<Rightarrow> js_exn + (js_string \<times> js_string) list \<Rightarrow> js_exn + http_response" where
  "GET_try env req_url =
     bind_exn req_url (\<lambda>searchParams.
       case map_of searchParams (lit ''jobId'') of
         None \<Rightarrow> (NextResponse_json (object [(lit ''detail'', Some (JStr (lit ''Job ID is required'')))]) 400)
       | Some jobId \<Rightarrow>
           if jobId = []
           then (NextResponse_json (object [(lit ''detail'', Some (JStr (lit ''Job ID is required'')))]) 400)
           else
             bind_exn (fetch env (job_status_request env jobId)) (\<lambda>response.
               if \<not> ok response
               then
                 bind_exn (body_json response) (\<lambda>errorData.
                 bind_exn (read_prop errorData (lit ''detail'')) (\<lambda>detail.
                   (NextResponse_json
                     (object [(lit ''detail'',
                        Some (or_else detail (JStr (lit ''Failed to get job status''))))])
                     (status response))))
               else
                 bind_exn (body_json response) (\<lambda>jobStatus.
                   (NextResponse_json jobStatus 200))))"

definition GET :: "proxy_env \<Rightarrow> js_exn + (js_string \<times> js_string) list \<Rightarrow> http_response" where
  "GET env req_url = (case GET_try env req_url of Inl e \<Rightarrow> catch_500 e | Inr r \<Rightarrow> r)"


section \<open>Conversions of the JavaScript runtime\<close>

text \<open>
  The client compares and prints values that come out of \<open>response.json()\<close>, so the
  conversions of the language apply. The two numeric text algorithms of the runtime,
  the printing of a number and the reading of a number from a string (\<open>None\<close> is
  \<open>NaN\<close>), are parameters.
\<close>

record js_runtime =
  number_to_string :: "real \<Rightarrow> js_string"
  string_to_number :: "js_string \<Rightarrow> real option"

fun join_comma :: "js_string list \<Rightarrow> js_string" where
  "join_comma [] = []"
| "join_comma [x] = x"
| "join_comma (x # y # zs) = x @ lit '','' @ join_comma (y # zs)"

fun ToString :: "js_runtime \<Rightarrow> json \<Rightarrow> js_string" where
  "ToString rt JNull = lit ''null''"
| "ToString rt (JBool b) = (if b then lit ''true'' else lit ''false'')"
| "ToString rt (JNum r) = number_to_string rt r"
| "ToString rt (JStr s) = s"
| "ToString rt (JArr xs) = join_comma (map (\<lambda>x. if x = JNull then [] else ToString rt x) xs)"
| "ToString rt (JObj kvs) = lit ''[object Object]''"

text \<open>A value inside a template literal.\<close>

definition template_text :: "js_runtime \<Rightarrow> json option \<Rightarrow> js_string" where
  "template_text rt v = (case v of None \<Rightarrow> lit ''undefined'' | Some x \<Rightarrow> ToString rt x)"

definition ToNumber :: "js_runtime \<Rightarrow> json option \<Rightarrow> real option" where
  "ToNumber rt v =
     (case v of
        None \<Rightarrow> None
      | Some JNull \<Rightarrow> Some 0
      | Some (JBool b) \<Rightarrow> Some (if b then 1 else 0)
      | Some (JNum r) \<Rightarrow> Some r
      | Some (JStr s) \<Rightarrow> string_to_number rt s
      | Some (JArr xs) \<Rightarrow> string_to_number rt (ToString rt (JArr xs))
      | Some (JObj kvs) \<Rightarrow> None)"

text \<open>\<open>v <= r\<close> and \<open>v < r\<close> for a numeric literal \<open>r\<close>: false when \<open>v\<close> converts to \<open>NaN\<close>.\<close>

definition js_le :: "js_runtime \<Rightarrow> json option \<Rightarrow> real \<Rightarrow> bool" where
  "js_le rt v r = (case ToNumber rt v of None \<Rightarrow> False | Some x \<Rightarrow> x \<le> r)"

definition js_lt :: "js_runtime \<Rightarrow> json option \<Rightarrow> real \<Rightarrow> bool" where
  "js_lt rt v r = (case ToNumber rt v of None \<Rightarrow> False | Some x \<Rightarrow> x < r)"

text \<open>
  \<open>String.prototype.trim\<close> removes the code units of WhiteSpace and LineTerminator from
  both ends.
\<close>

definition is_whitespace :: "16 word \<Rightarrow> bool" where
  "is_whitespace u =
     (u \<in> set [0x0009, 0x000A, 0x000B, 0x000C, 0x000D, 0x0020, 0x00A0, 0x1680,
               0x2000, 0x2001, 0x2002, 0x2003, 0x2004, 0x2005, 0x2006, 0x2007, 0x2008,
               0x2009, 0x200A, 0x2028, 0x2029, 0x202F, 0x205F, 0x3000, 0xFEFF])"

definition trim :: "js_string \<Rightarrow> js_string" where
  "trim s = rev (dropWhile is_whitespace (rev (dropWhile is_whitespace s)))"

section \<open>The client page\<close>

definition thoughtStages :: "(string \<times> string) list" where
  "thoughtStages =
     [(''Planning report structure...'',
       ''Identifying key sections and topics to cover in the report''),
      (''Generating search queries...'',
       ''Creating specific search terms to find the most relevant information''),
      (''Searching for relevant information...'',
       ''Scanning through academic papers, websites, and trusted sources''),
      (''Analyzing search results...'',
       ''Evaluating sources for credibility and extracting key insights''),
      (''Writing report sections...'',
       ''Synthesizing information into coherent sections with proper citations''),
      (''Reviewing and refining content...'',
       ''Ensuring logical flow and checking for any factual inconsistencies''),
      (''Finalizing report...'',
       ''Formatting the report and preparing the final document'')]"

text \<open>
  The component \<open>Home\<close>: its \<open>useState\<close> cells, and what the browser holds for it. The
  cells \<open>error\<close> and \<open>report\<close> are \<open>JNull\<close> for \<open>null\<close>. \<open>mounted\<close> is false once the
  component is gone; \<open>ticker\<close> tells whether the one-second interval of the first
  effect is running; \<open>pollIntervals\<close> are the running intervals that
  \<open>startPollingJobStatus\<close> created, each with its identifier and the \<open>jobId\<close> it was
  given; \<open>inFlight\<close> counts the calls of \<open>handleSubmit\<close> that wait for the answer to their
  POST request.
\<close>

record page =
  status_state :: js_string
  topic :: js_string
  isLoading :: bool
  error :: json
  report :: json
  currentStage :: nat
  processingTime :: nat
  jobId :: "json option"
  serverStatus :: "json option"
  mounted :: bool
  ticker :: bool
  pollIntervals :: "(nat \<times> json option) list"
  nextIntervalId :: nat
  inFlight :: nat

definition initial :: page where
  "initial =
     \<lparr>status_state = lit ''Checking...'', topic = [], isLoading = False, error = JNull,
      report = JNull, currentStage = 0, processingTime = 0, jobId = Some JNull,
      serverStatus = Some JNull, mounted = True, ticker = False, pollIntervals = [],
      nextIntervalId = 0, inFlight = 0\<rparr>"

text \<open>A call of a state setter; React ignores it once the component is unmounted.\<close>

definition setState :: "(page \<Rightarrow> page) \<Rightarrow> page \<Rightarrow> page" where
  "setState f c = (if mounted c then f c else c)"

text \<open>
  The effects that run after a render, taken to their fixed point: the first effect
  (dependencies \<open>isLoading\<close>, \<open>processingTime\<close>, \<open>currentStage\<close>) starts its interval
  anew while loading, and otherwise resets stage and time; the last effect resets
  \<open>jobId\<close> once loading has ended.
\<close>

definition useEffects :: "page \<Rightarrow> page" where
  "useEffects c =
     (if \<not> mounted c then c
      else if isLoading c then c\<lparr>ticker := True\<rparr>
      else c\<lparr>currentStage := 0, processingTime := 0, ticker := False,
              jobId := (if truthy (jobId c) then Some JNull else jobId c)\<rparr>)"

text \<open>The callback of the one-second interval.\<close>

definition tick :: "page \<Rightarrow> page" where
  "tick c =
     (if \<not> ticker c then c
      else useEffects (setState (\<lambda>s.
             s\<lparr>processingTime := processingTime s + 1,
               currentStage :=
                 (if processingTime s > 0 \<and> processingTime s mod 12 = 0 \<and>
                     currentStage s < length thoughtStages - 1
                  then currentStage s + 1 else currentStage s)\<rparr>) c))"

text \<open>
  The effect that runs once on mount asks the backend for its health; this is its
  callback \<open>fetchServerStatus\<close>, run with the outcome of its \<open>fetch\<close>.
\<close>

definition fetchServerStatus :: "js_exn + http_response \<Rightarrow> page \<Rightarrow> page" where
  "fetchServerStatus outcome c =
     (let unavailable = setState (\<lambda>s. s\<lparr>status_state := lit ''Server is unavailable''\<rparr>) c in
      case outcome of
        Inl err \<Rightarrow> unavailable
      | Inr res \<Rightarrow>
          (case body_json res of
             Inl err \<Rightarrow> unavailable
           | Inr data \<Rightarrow>
               (case read_prop data (lit ''status'') of
                  Inl err \<Rightarrow> unavailable
                | Inr st \<Rightarrow>
                    setState (\<lambda>s. s\<lparr>serverStatus := Some (or_else st (JStr (lit ''OK'')))\<rparr>) c)))"

text \<open>Unmounting runs the cleanup of the first effect, the only one that has a cleanup.\<close>

definition unmount :: "page \<Rightarrow> page" where
  "unmount c = c\<lparr>mounted := False, ticker := False\<rparr>"

text \<open>The mapping of job progress to thought stages inside the polling callback.\<close>

definition progress_stage :: "js_runtime \<Rightarrow> json option \<Rightarrow> nat" where
  "progress_stage rt progress =
     (if js_le rt progress 0.2 then 0
      else if js_le rt progress 0.3 then 1
      else if js_le rt progress 0.5 then 2
      else if js_le rt progress 0.7 then 3
      else if js_le rt progress 0.9 then 4
      else if js_lt rt progress 1.0 then 5
      else 6)"

definition clearInterval :: "nat \<Rightarrow> page \<Rightarrow> page" where
  "clearInterval i c = c\<lparr>pollIntervals := filter (\<lambda>t. fst t \<noteq> i) (pollIntervals c)\<rparr>"

definition report_request :: "js_string \<Rightarrow> http_request" where
  "report_request t =
     \<lparr>url = lit ''/api/generate-report'', http_method = lit ''POST'',
      headers = [(lit ''Content-Type'', lit ''application/json'')],
      body = Some (object [(lit ''topic'', Some (JStr t))])\<rparr>"

definition poll_request :: "js_runtime \<Rightarrow> json option \<Rightarrow> http_request" where
  "poll_request rt jid =
     \<lparr>url = lit ''/api/generate-report?jobId='' @ template_text rt jid, http_method = lit ''GET'',
      headers = [], body = None\<rparr>"

text \<open>
  The callback of the polling interval \<open>pollInterval\<close>, run with the outcome of its
  \<open>fetch\<close>. The exceptions of the \<open>try\<close> block end in its \<open>catch\<close>, which only logs.
\<close>

definition poll_callback :: "js_runtime \<Rightarrow> nat \<Rightarrow> js_exn + http_response \<Rightarrow> page \<Rightarrow> page" where
  "poll_callback rt pollInterval outcome c =
     (case outcome of
        Inl err \<Rightarrow> c
      | Inr response \<Rightarrow>
          if \<not> ok response
          then
            (let c1 = clearInterval pollInterval c in
             case body_json response of
               Inl err \<Rightarrow> c1
             | Inr errorData \<Rightarrow>
                 (case read_prop errorData (lit ''detail'') of
                    Inl err \<Rightarrow> c1
                  | Inr detail \<Rightarrow>
                      useEffects (setState (\<lambda>s.
                        s\<lparr>error := or_else detail (JStr (lit ''Failed to check job status'')),
                          isLoading := False\<rparr>) c1)))
          else
            (case body_json response of
               Inl err \<Rightarrow> c
             | Inr statusData \<Rightarrow>
                 (let c1 = setState (\<lambda>s. s\<lparr>processingTime := processingTime s + 1\<rparr>) c in
                  case read_prop statusData (lit ''progress'') of
                    Inl err \<Rightarrow> useEffects c1
                  | Inr progress \<Rightarrow>
                      (let c2 = setState (\<lambda>s. s\<lparr>currentStage := progress_stage rt progress\<rparr>) c1 in
                       if get statusData (lit ''status'') = Some (JStr (lit ''completed'')) \<and>
                          truthy (get statusData (lit ''report''))
                       then useEffects (setState (\<lambda>s.
                              s\<lparr>report := the (get statusData (lit ''report'')), isLoading := False\<rparr>)
                              (clearInterval pollInterval c2))
                       else if get statusData (lit ''status'') = Some (JStr (lit ''failed''))
                       then useEffects (setState (\<lambda>s.
                              s\<lparr>error := or_else (get statusData (lit ''error''))
                                           (JStr (lit ''Failed to generate report'')),
                                isLoading := False\<rparr>)
                              (clearInterval pollInterval c2))
                       else useEffects c2))))"

text \<open>
  A tick of the polling interval \<open>i\<close>: nothing when the interval has been cleared,
  otherwise the request that the callback sends and the state it leaves.
\<close>

definition poll_tick ::
  "js_runtime \<Rightarrow> nat \<Rightarrow> js_exn + http_response \<Rightarrow> page \<Rightarrow> page \<times> http_request list" where
  "poll_tick rt i outcome c =
     (case map_of (pollIntervals c) i of
        None \<Rightarrow> (c, [])
      | Some jid \<Rightarrow> (poll_callback rt i outcome c, [poll_request rt jid]))"

text \<open>\<open>setInterval\<close> of \<open>startPollingJobStatus\<close>; the caller drops the cleanup it returns.\<close>

definition startPollingJobStatus :: "json option \<Rightarrow> page \<Rightarrow> page" where
  "startPollingJobStatus jid c =
     c\<lparr>pollIntervals := pollIntervals c @ [(nextIntervalId c, jid)],
       nextIntervalId := nextIntervalId c + 1\<rparr>"

text \<open>
  \<open>handleSubmit\<close> up to its \<open>await fetch\<close>: the state it leaves and the requests it
  sends.
\<close>

definition handleSubmit :: "page \<Rightarrow> page \<times> http_request list" where
  "handleSubmit c =
     (if trim (topic c) = [] then (c, [])
      else
        ((useEffects (setState (\<lambda>s.
            s\<lparr>isLoading := True, error := JNull, report := JNull, processingTime := 0,
              currentStage := 0, jobId := Some JNull, serverStatus := Some JNull\<rparr>) c))
           \<lparr>inFlight := inFlight c + 1\<rparr>,
         [report_request (topic c)]))"

text \<open>The \<open>catch\<close> block of \<open>handleSubmit\<close>.\<close>

definition submit_catch :: "js_exn \<Rightarrow> page \<Rightarrow> page" where
  "submit_catch err c =
     useEffects (setState (\<lambda>s. s\<lparr>error := JStr (error_message err), isLoading := False\<rparr>) c)"

text \<open>The rest of \<open>handleSubmit\<close>, run with the outcome of its \<open>fetch\<close>.\<close>

definition handleSubmit_resume :: "js_runtime \<Rightarrow> js_exn + http_response \<Rightarrow> page \<Rightarrow> page" where
  "handleSubmit_resume rt outcome c0 =
     (let c = c0\<lparr>inFlight := inFlight c0 - 1\<rparr> in
      case outcome of
        Inl err \<Rightarrow> submit_catch err c
      | Inr response \<Rightarrow>
          if \<not> ok response
          then
            (case body_json response of
               Inl err \<Rightarrow> submit_catch err c
             | Inr errorData \<Rightarrow>
                 (case read_prop errorData (lit ''serverStatus'') of
                    Inl err \<Rightarrow> submit_catch err c
                  | Inr ss \<Rightarrow>
                      (let generic = Error (ToString rt (or_else (get errorData (lit ''detail''))
                                       (JStr (lit ''Failed to start report generation''))))
                       in
                       if truthy ss
                       then
                         (let c1 = setState (\<lambda>s. s\<lparr>serverStatus := ss\<rparr>) c in
                          if ss = Some (JStr (lit ''busy''))
                          then submit_catch (Error
                                 (lit ''Server is at maximum capacity (''
                                  @ template_text rt (get errorData (lit ''currentLoad''))
                                  @ lit ''/''
                                  @ template_text rt (get errorData (lit ''maxCapacity''))
                                  @ lit ''). Please try again later.'')) c1
                          else if ss = Some (JStr (lit ''warming''))
                          then submit_catch (Error
                                 (lit ''Server is warming up. Please try again in 30 seconds.'')) c1
                          else if ss = Some (JStr (lit ''unavailable''))
                          then submit_catch (Error
                                 (lit ''Research service is currently unavailable. Please try again later.'')) c1
                          else submit_catch generic c1)
                       else submit_catch generic c)))
          else
            (case body_json response of
               Inl err \<Rightarrow> submit_catch err c
             | Inr jobData \<Rightarrow>
                 (case read_prop jobData (lit ''job_id'') of
                    Inl err \<Rightarrow> submit_catch err c
                  | Inr job_id \<Rightarrow>
                      (let c1 = setState (\<lambda>s. s\<lparr>jobId := job_id\<rparr>) c in
                       if get jobData (lit ''status'') = Some (JStr (lit ''completed'')) \<and>
                          truthy (get jobData (lit ''report''))
                       then useEffects (setState (\<lambda>s.
                              s\<lparr>report := the (get jobData (lit ''report'')), isLoading := False\<rparr>) c1)
                       else useEffects (startPollingJobStatus job_id c1)))))"

text \<open>
  The input form is rendered under \<open>!isLoading && !report && !error\<close>; only then can the
  user edit the topic or submit.
\<close>

definition form_shown :: "page \<Rightarrow> bool" where
  "form_shown c =
     (mounted c \<and> \<not> isLoading c \<and> \<not> truthy (Some (report c)) \<and> \<not> truthy (Some (error c)))"

definition onChange :: "js_string \<Rightarrow> page \<Rightarrow> page" where
  "onChange v c = setState (\<lambda>s. s\<lparr>topic := v\<rparr>) c"

text \<open>
  The states that the page goes through: the user acts on the form while it is shown,
  a pending submission receives its answer, the health request of the mount effect is
  answered, an interval fires, the component is unmounted.
\<close>

inductive reachable :: "js_runtime \<Rightarrow> page \<Rightarrow> bool" for rt :: js_runtime where
  start: "reachable rt initial"
| change: "reachable rt c \<Longrightarrow> form_shown c \<Longrightarrow> reachable rt (onChange v c)"
| submit: "reachable rt c \<Longrightarrow> form_shown c \<Longrightarrow> reachable rt (fst (handleSubmit c))"
| answer: "reachable rt c \<Longrightarrow> 0 < inFlight c \<Longrightarrow> reachable rt (handleSubmit_resume rt outcome c)"
| health: "reachable rt c \<Longrightarrow> reachable rt (fetchServerStatus outcome c)"
| poll: "reachable rt c \<Longrightarrow> reachable rt (fst (poll_tick rt i outcome c))"
| second: "reachable rt c \<Longrightarrow> reachable rt (tick c)"
| leave: "reachable rt c \<Longrightarrow> reachable rt (unmount c)"

text \<open>
  The stages that the page shows after each of a series of ticks of the polling
  interval \<open>i\<close>.
\<close>

fun stages_shown :: "js_runtime \<Rightarrow> nat \<Rightarrow> (js_exn + http_response) list \<Rightarrow> page \<Rightarrow> nat list" where
  "stages_shown rt i [] c = []"
| "stages_shown rt i (outcome # outcomes) c =
     currentStage (fst (poll_tick rt i outcome c)) #
     stages_shown rt i outcomes (fst (poll_tick rt i outcome c))"

text \<open>
  The page follows one job at a time: at most one submission waits for its answer, at
  most one polling interval runs and not while a submission waits, and a mounted page
  with either of them is loading.
\<close>

definition one_job :: "page \<Rightarrow> bool" where
  "one_job c =
     (inFlight c \<le> 1 \<and> length (pollIntervals c) \<le> 1 \<and>
      (inFlight c = 1 \<longrightarrow> pollIntervals c = []) \<and>
      (mounted c \<and> (inFlight c = 1 \<or> pollIntervals c \<noteq> []) \<longrightarrow> isLoading c))"

section \<open>Example inputs\<close>

text \<open>Requests to the proxy.\<close>

definition topic_request :: "js_exn + json" where
  "topic_request = Inr (JObj [(lit ''topic'', JStr (lit ''ai''))])"

definition invalid_json_request :: "js_exn + json" where
  "invalid_json_request = Inl (Error (lit ''Unexpected end of JSON input''))"

definition job_query :: "js_exn + (js_string \<times> js_string) list" where
  "job_query = Inr [(lit ''jobId'', lit ''j1'')]"

text \<open>Backends, each given by what it answers.\<close>

definition backend :: "(http_request \<Rightarrow> js_exn + http_response) \<Rightarrow> proxy_env" where
  "backend f = \<lparr>API_KEY = None, NEXT_PUBLIC_BACKEND_URL = Some (lit ''http://backend''), fetch = f\<rparr>"

definition busy_and_warming_health :: http_response where
  "busy_and_warming_health =
     \<lparr>status = 200, body_json = Inr (JObj
        [(lit ''status'', JStr (lit ''ok'')),
         (lit ''server_status'', JStr (lit ''busy'')),
         (lit ''current_load'', JNum 5),
         (lit ''max_capacity'', JNum 5),
         (lit ''is_warming_up'', JBool True)])\<rparr>"

definition busy_and_warming_backend :: proxy_env where
  "busy_and_warming_backend = backend (\<lambda>r. Inr busy_and_warming_health)"

definition warming_health :: http_response where
  "warming_health =
     \<lparr>status = 200, body_json = Inr (JObj
        [(lit ''status'', JStr (lit ''ok'')),
         (lit ''server_status'', JStr (lit ''warming'')),
         (lit ''is_warming_up'', JBool True)])\<rparr>"

definition warming_backend :: proxy_env where
  "warming_backend = backend (\<lambda>r. Inr warming_health)"

definition unreachable_backend :: proxy_env where
  "unreachable_backend = backend (\<lambda>r. Inl (Error (lit ''fetch failed'')))"

definition bad_gateway :: http_response where
  "bad_gateway = \<lparr>status = 502, body_json = Inl (Error (lit ''Unexpected token <''))\<rparr>"

definition failing_health_backend :: proxy_env where
  "failing_health_backend = backend (\<lambda>r. Inr bad_gateway)"

definition ready_health :: http_response where
  "ready_health =
     \<lparr>status = 200, body_json = Inr (JObj
        [(lit ''status'', JStr (lit ''ok'')),
         (lit ''server_status'', JStr (lit ''ok'')),
         (lit ''is_warming_up'', JBool False)])\<rparr>"

definition answering :: "http_response \<Rightarrow> http_request \<Rightarrow> js_exn + http_response" where
  "answering r rq = (if url rq = lit ''http://backend/health'' then Inr ready_health else Inr r)"

definition html_error_backend :: proxy_env where
  "html_error_backend = backend (answering bad_gateway)"

definition empty_detail :: http_response where
  "empty_detail = \<lparr>status = 422, body_json = Inr (JObj [(lit ''detail'', JStr [])])\<rparr>"

definition empty_detail_backend :: proxy_env where
  "empty_detail_backend = backend (answering empty_detail)"

definition out_of_range :: http_response where
  "out_of_range = \<lparr>status = 600, body_json = Inr (JObj [(lit ''detail'', JStr (lit ''x''))])\<rparr>"

definition out_of_range_backend :: proxy_env where
  "out_of_range_backend = backend (answering out_of_range)"

definition not_found :: http_response where
  "not_found =
     \<lparr>status = 404, body_json = Inr (JObj [(lit ''detail'', JStr (lit ''Job not found''))])\<rparr>"

definition not_found_backend :: proxy_env where
  "not_found_backend = backend (answering not_found)"

text \<open>
  A runtime for inputs on which the numeric text conversions are not called, and
  pages of one job: the topic typed and submitted, then the job started.
\<close>

definition plain_runtime :: js_runtime where
  "plain_runtime = \<lparr>number_to_string = (\<lambda>r. []), string_to_number = (\<lambda>s. None)\<rparr>"

definition blank_page :: page where
  "blank_page = onChange [0x0020, 0x0009, 0x00A0, 0x000A] initial"

definition submitted :: page where
  "submitted = fst (handleSubmit (onChange (lit ''ai'') initial))"

definition job_started :: "js_exn + http_response" where
  "job_started =
     Inr \<lparr>status = 200,
          body_json = Inr (JObj [(lit ''job_id'', JStr (lit ''j1'')),
                                 (lit ''status'', JStr (lit ''queued''))])\<rparr>"

definition polling :: page where
  "polling = handleSubmit_resume plain_runtime job_started submitted"

definition running :: "real \<Rightarrow> js_exn + http_response" where
  "running p =
     Inr \<lparr>status = 200,
          body_json = Inr (JObj [(lit ''status'', JStr (lit ''running'')),
                                 (lit ''progress'', JNum p)])\<rparr>"

definition network_error :: "js_exn + http_response" where
  "network_error = Inl (Error (lit ''Failed to fetch''))"

section \<open>String literals\<close>

lemma unit16_inj: "inj (\<lambda>c::char. (of_nat (of_char c) :: 16 word))"
proof (rule injI)
  fix x y :: char
  assume h: "(of_nat (of_char x) :: 16 word) = of_nat (of_char y)"
  have bx: "(of_char x :: nat) < 2 ^ 16"
    by (rule less_trans [OF nat_of_char_less_256]) simp
  have "(of_char y :: nat) < 2 ^ 16"
    by (rule less_trans [OF nat_of_char_less_256]) simp
  with bx h have "(of_char x :: nat) = of_char y"
    by (simp add: word_of_nat_eq_iff take_bit_nat_eq_self)
  then show "x = y" by simp
qed

lemma lit_eq_iff [simp]: "lit a = lit b \<longleftrightarrow> a = b"
  unfolding lit_def using unit16_inj by (simp add: inj_map_eq_map)

lemma lit_append [simp]: "lit a @ lit b = lit (a @ b)"
  by (simp add: lit_def)

lemma lit_Nil [simp]: "lit s = [] \<longleftrightarrow> s = []"
  by (simp add: lit_def)

section \<open>The proxy: health check and admission\<close>

lemmas proxy_defs =
  POST_def POST_try_def GET_def GET_try_def bind_exn_def catch_500_def
  NextResponse_json_def json_response_def null_body_status_def object_def read_prop_def opt_chain_def or_else_def error_message_def

lemmas example_defs =
  topic_request_def invalid_json_request_def job_query_def backend_def
  busy_and_warming_health_def busy_and_warming_backend_def warming_health_def
  warming_backend_def unreachable_backend_def bad_gateway_def failing_health_backend_def
  ready_health_def answering_def html_error_backend_def empty_detail_def
  empty_detail_backend_def not_found_def not_found_backend_def out_of_range_def
  out_of_range_backend_def
  health_request_def generate_request_def job_status_request_def env_text_def

text \<open>
  C1, as amended. A POST request with a topic, whose health check succeeds with a
  payload in which \<open>is_warming_up\<close> is true (or any other truthy value) and
  \<open>server_status\<close> is not \<open>"busy"\<close>, is answered with HTTP 503 and
  \<open>serverStatus: "warming"\<close>. The check for \<open>"busy"\<close> comes first in the handler.
\<close>

theorem POST_warming_unless_busy:
  assumes "req_json = Inr b"
    and "truthy (opt_chain b (lit ''topic''))"
    and "fetch env (health_request env) = Inr healthResponse"
    and "ok healthResponse"
    and "body_json healthResponse = Inr healthData"
    and "truthy (get healthData (lit ''is_warming_up''))"
    and "get healthData (lit ''server_status'') \<noteq> Some (JStr (lit ''busy''))"
  shows "POST env req_json =
     \<lparr>status = 503,
      body_json = Inr (JObj
        [(lit ''detail'', JStr (lit ''Server is currently warming up. Please try again in 30 seconds.'')),
         (lit ''serverStatus'', JStr (lit ''warming''))])\<rparr>"
proof -
  from assms(6) have "healthData \<noteq> JNull"
    by (auto simp: get_def)
  with assms show ?thesis
    by (simp add: proxy_defs)
qed

theorem POST_warming_unless_busy_witness:
  "POST warming_backend topic_request =
     \<lparr>status = 503,
      body_json = Inr (JObj
        [(lit ''detail'', JStr (lit ''Server is currently warming up. Please try again in 30 seconds.'')),
         (lit ''serverStatus'', JStr (lit ''warming''))])\<rparr>"
  by (rule POST_warming_unless_busy [where b = "JObj [(lit ''topic'', JStr (lit ''ai''))]"
        and healthResponse = warming_health
        and healthData = "JObj [(lit ''status'', JStr (lit ''ok'')),
         (lit ''server_status'', JStr (lit ''warming'')),
         (lit ''is_warming_up'', JBool True)]"])
     (simp_all add: example_defs opt_chain_def get_def ok_def)

text \<open>
  C1 as stated fails: a health payload with \<open>is_warming_up: true\<close> and
  \<open>server_status: "busy"\<close> is answered with HTTP 429 and \<open>serverStatus: "busy"\<close>.
\<close>

theorem POST_busy_and_warming_counterexample:
  "status (POST busy_and_warming_backend topic_request) = 429 \<and>
   body_json (POST busy_and_warming_backend topic_request) = Inr (JObj
     [(lit ''detail'', JStr (lit ''Server is currently at maximum capacity. Please try again later.'')),
      (lit ''serverStatus'', JStr (lit ''busy'')),
      (lit ''currentLoad'', JNum 5),
      (lit ''maxCapacity'', JNum 5)])"
  by (simp add: proxy_defs example_defs get_def ok_def)

text \<open>
  C2, as amended. For a POST request with a topic: when the health check returns a
  non-success status, the answer is HTTP 503 with \<open>serverStatus: "unavailable"\<close>; when
  the health \<open>fetch\<close> throws, the \<open>catch\<close> block answers HTTP 500 with the message of
  the error as \<open>detail\<close> and no \<open>serverStatus\<close>.
\<close>

theorem POST_health_failure:
  assumes "req_json = Inr b"
    and "truthy (opt_chain b (lit ''topic''))"
  shows "(fetch env (health_request env) = Inr healthResponse \<and> \<not> ok healthResponse \<longrightarrow>
            POST env req_json =
              \<lparr>status = 503,
               body_json = Inr (JObj
                 [(lit ''detail'', JStr (lit ''Backend service unavailable'')),
                  (lit ''serverStatus'', JStr (lit ''unavailable''))])\<rparr>) \<and>
         (fetch env (health_request env) = Inl e \<longrightarrow>
            POST env req_json =
              \<lparr>status = 500, body_json = Inr (JObj [(lit ''detail'', JStr (error_message e))])\<rparr>)"
  using assms by (simp add: proxy_defs)

theorem POST_health_failure_witness:
  "POST failing_health_backend topic_request =
     \<lparr>status = 503,
      body_json = Inr (JObj
        [(lit ''detail'', JStr (lit ''Backend service unavailable'')),
         (lit ''serverStatus'', JStr (lit ''unavailable''))])\<rparr> \<and>
   POST unreachable_backend topic_request =
     \<lparr>status = 500, body_json = Inr (JObj [(lit ''detail'', JStr (lit ''fetch failed''))])\<rparr>"
  using
    POST_health_failure [of topic_request "JObj [(lit ''topic'', JStr (lit ''ai''))]"
      failing_health_backend bad_gateway]
    POST_health_failure [of topic_request "JObj [(lit ''topic'', JStr (lit ''ai''))]"
      unreachable_backend _ "Error (lit ''fetch failed'')"]
  by (simp add: example_defs opt_chain_def get_def ok_def error_message_def)

text \<open>
  C2 as stated fails: when the health \<open>fetch\<close> throws, the answer is HTTP 500 and its
  body has no \<open>serverStatus\<close>.
\<close>

theorem POST_health_unreachable_counterexample:
  "status (POST unreachable_backend topic_request) = 500 \<and>
   body_json (POST unreachable_backend topic_request) =
     Inr (JObj [(lit ''detail'', JStr (lit ''fetch failed''))])"
  by (simp add: proxy_defs example_defs get_def ok_def)

section \<open>The proxy: backend failures and exceptions\<close>




text \<open>
  C10. An exception that leaves the \<open>try\<close> block of \<open>POST\<close> or of \<open>GET\<close> is answered
  with HTTP 500 and a body \<open>{detail: message}\<close>. This is the case for a request body
  that is not JSON, for a \<open>fetch\<close> that throws, and for a backend failure whose body is
  not JSON.
\<close>

theorem handlers_answer_500_on_exception:
  "(POST_try env req_json = Inl e \<longrightarrow> POST env req_json = catch_500 e) \<and>
   (GET_try env req_url = Inl e \<longrightarrow> GET env req_url = catch_500 e) \<and>
   catch_500 e = \<lparr>status = 500, body_json = Inr (JObj [(lit ''detail'', JStr (error_message e))])\<rparr> \<and>
   (req_json = Inl e \<longrightarrow> POST env req_json = catch_500 e) \<and>
   (req_json = Inr b \<and> truthy (opt_chain b (lit ''topic'')) \<and>
    fetch env (health_request env) = Inl e \<longrightarrow> POST env req_json = catch_500 e) \<and>
   (req_json = Inr b \<and> truthy (opt_chain b (lit ''topic'')) \<and>
    fetch env (health_request env) = Inr healthResponse \<and> ok healthResponse \<and>
    body_json healthResponse = Inr healthData \<and> healthData \<noteq> JNull \<and>
    get healthData (lit ''server_status'') \<noteq> Some (JStr (lit ''busy'')) \<and>
    \<not> truthy (get healthData (lit ''is_warming_up'')) \<and>
    (fetch env (generate_request env b) = Inl e \<or>
     fetch env (generate_request env b) = Inr response \<and> \<not> ok response \<and>
     body_json response = Inl e) \<longrightarrow> POST env req_json = catch_500 e) \<and>
   (req_url = Inr searchParams \<and> map_of searchParams (lit ''jobId'') = Some jid \<and> jid \<noteq> [] \<and>
    (fetch env (job_status_request env jid) = Inl e \<or>
     fetch env (job_status_request env jid) = Inr response \<and> \<not> ok response \<and>
     body_json response = Inl e) \<longrightarrow> GET env req_url = catch_500 e)"
  by (auto simp: proxy_defs)

theorem handlers_answer_500_on_exception_witness:
  "POST unreachable_backend invalid_json_request =
     \<lparr>status = 500,
      body_json = Inr (JObj [(lit ''detail'', JStr (lit ''Unexpected end of JSON input''))])\<rparr> \<and>
   POST unreachable_backend topic_request =
     \<lparr>status = 500, body_json = Inr (JObj [(lit ''detail'', JStr (lit ''fetch failed''))])\<rparr> \<and>
   GET unreachable_backend job_query =
     \<lparr>status = 500, body_json = Inr (JObj [(lit ''detail'', JStr (lit ''fetch failed''))])\<rparr> \<and>
   POST html_error_backend topic_request =
     \<lparr>status = 500, body_json = Inr (JObj [(lit ''detail'', JStr (lit ''Unexpected token <''))])\<rparr>"
  using
    handlers_answer_500_on_exception
      [of unreachable_backend invalid_json_request "Error (lit ''Unexpected end of JSON input'')"]
    handlers_answer_500_on_exception
      [of unreachable_backend topic_request "Error (lit ''fetch failed'')" job_query
        "JObj [(lit ''topic'', JStr (lit ''ai''))]" _ _ _ "[(lit ''jobId'', lit ''j1'')]" "lit ''j1''"]
    handlers_answer_500_on_exception
      [of html_error_backend topic_request "Error (lit ''Unexpected token <'')" job_query
        "JObj [(lit ''topic'', JStr (lit ''ai''))]" ready_health
        "JObj [(lit ''status'', JStr (lit ''ok'')), (lit ''server_status'', JStr (lit ''ok'')),
               (lit ''is_warming_up'', JBool False)]"
        bad_gateway]
  by (simp add: example_defs opt_chain_def get_def ok_def error_message_def)

section \<open>The client: states of one job\<close>

lemma trim_ai: "trim (lit ''ai'') = lit ''ai''"
  by (simp add: trim_def lit_def is_whitespace_def)

lemma submitted_state:
  "submitted =
     \<lparr>status_state = lit ''Checking...'', topic = lit ''ai'', isLoading = True, error = JNull,
      report = JNull, currentStage = 0, processingTime = 0, jobId = Some JNull,
      serverStatus = Some JNull, mounted = True, ticker = True, pollIntervals = [],
      nextIntervalId = 0, inFlight = 1\<rparr>"
  by (simp add: submitted_def handleSubmit_def onChange_def initial_def setState_def
        useEffects_def trim_ai)

lemma polling_state:
  "polling =
     \<lparr>status_state = lit ''Checking...'', topic = lit ''ai'', isLoading = True, error = JNull,
      report = JNull, currentStage = 0, processingTime = 0, jobId = Some (JStr (lit ''j1'')),
      serverStatus = Some JNull, mounted = True, ticker = True,
      pollIntervals = [(0, Some (JStr (lit ''j1'')))], nextIntervalId = 1, inFlight = 0\<rparr>"
  by (simp add: polling_def submitted_state handleSubmit_resume_def job_started_def ok_def
        read_prop_def get_def startPollingJobStatus_def setState_def useEffects_def)

section \<open>The client: progress and stages\<close>

lemma progress_stage_num:
  "progress_stage rt (Some (JNum p)) =
     (if p \<le> 0.2 then 0 else if p \<le> 0.3 then 1 else if p \<le> 0.5 then 2
      else if p \<le> 0.7 then 3 else if p \<le> 0.9 then 4 else if p < 1 then 5 else 6)"
  by (simp add: progress_stage_def js_le_def js_lt_def ToNumber_def)

lemma progress_stage_mono:
  "p \<le> q \<Longrightarrow> progress_stage rt (Some (JNum p)) \<le> progress_stage rt (Some (JNum q))"
  by (simp add: progress_stage_num)

text \<open>
  C4. For a progress value \<open>p\<close> between 0 and 1, the stage is 0 exactly for
  \<open>p \<le> 0.2\<close>, 1 for \<open>0.2 < p \<le> 0.3\<close>, 2 for \<open>0.3 < p \<le> 0.5\<close>, 3 for
  \<open>0.5 < p \<le> 0.7\<close>, 4 for \<open>0.7 < p \<le> 0.9\<close>, 5 for \<open>0.9 < p < 1\<close> and 6 for \<open>p = 1\<close>;
  it is an index into the seven thought stages.
\<close>

theorem progress_stage_brackets:
  assumes "0 \<le> p" and "p \<le> 1"
  shows "(progress_stage rt (Some (JNum p)) = 0 \<longleftrightarrow> p \<le> 0.2) \<and>
         (progress_stage rt (Some (JNum p)) = 1 \<longleftrightarrow> 0.2 < p \<and> p \<le> 0.3) \<and>
         (progress_stage rt (Some (JNum p)) = 2 \<longleftrightarrow> 0.3 < p \<and> p \<le> 0.5) \<and>
         (progress_stage rt (Some (JNum p)) = 3 \<longleftrightarrow> 0.5 < p \<and> p \<le> 0.7) \<and>
         (progress_stage rt (Some (JNum p)) = 4 \<longleftrightarrow> 0.7 < p \<and> p \<le> 0.9) \<and>
         (progress_stage rt (Some (JNum p)) = 5 \<longleftrightarrow> 0.9 < p \<and> p < 1) \<and>
         (progress_stage rt (Some (JNum p)) = 6 \<longleftrightarrow> p = 1) \<and>
         progress_stage rt (Some (JNum p)) < length thoughtStages"
  using assms by (simp add: progress_stage_num thoughtStages_def)

theorem progress_stage_brackets_witness:
  "progress_stage plain_runtime (Some (JNum 0.2)) = 0 \<and>
   progress_stage plain_runtime (Some (JNum 0.21)) = 1 \<and>
   progress_stage plain_runtime (Some (JNum 0.7)) = 3 \<and>
   progress_stage plain_runtime (Some (JNum 0.71)) = 4 \<and>
   progress_stage plain_runtime (Some (JNum 1.0)) = 6"
  using progress_stage_brackets [of "0.2" plain_runtime]
    progress_stage_brackets [of "0.21" plain_runtime]
    progress_stage_brackets [of "0.7" plain_runtime]
    progress_stage_brackets [of "0.71" plain_runtime]
    progress_stage_brackets [of "1.0" plain_runtime]
  by simp

lemma poll_tick_running:
  assumes "mounted c" and "isLoading c" and "map_of (pollIntervals c) i = Some jid"
  shows "fst (poll_tick rt i (running p) c) =
           c\<lparr>processingTime := processingTime c + 1,
             currentStage := progress_stage rt (Some (JNum p)), ticker := True\<rparr>"
  using assms
  by (simp add: poll_tick_def poll_callback_def running_def ok_def read_prop_def get_def
        setState_def useEffects_def)

lemma stages_shown_running:
  assumes "mounted c" and "isLoading c" and "map_of (pollIntervals c) i = Some jid"
  shows "stages_shown rt i (map running ps) c = map (\<lambda>p. progress_stage rt (Some (JNum p))) ps"
  using assms
proof (induction ps arbitrary: c)
  case Nil
  show ?case by simp
next
  case (Cons p ps)
  let ?c = "fst (poll_tick rt i (running p) c)"
  have step: "?c = c\<lparr>processingTime := processingTime c + 1,
             currentStage := progress_stage rt (Some (JNum p)), ticker := True\<rparr>"
    using Cons.prems by (rule poll_tick_running)
  have "mounted ?c" and "isLoading ?c" and "map_of (pollIntervals ?c) i = Some jid"
    using Cons.prems by (simp_all add: step)
  then have "stages_shown rt i (map running ps) ?c = map (\<lambda>p. progress_stage rt (Some (JNum p))) ps"
    by (rule Cons.IH)
  then show ?case by (simp add: step)
qed

text \<open>
  C5, as amended. While a job is polled on a mounted, loading page, the stage shown
  after each answer of a running job is the stage of the progress in that answer,
  whatever was shown before; so over a series of such answers whose progress does not
  decrease, the stage shown does not decrease.
\<close>

theorem stage_follows_reported_progress:
  assumes "mounted c" and "isLoading c" and "map_of (pollIntervals c) i = Some jid"
    and "sorted ps"
  shows "stages_shown rt i (map running ps) c = map (\<lambda>p. progress_stage rt (Some (JNum p))) ps \<and>
         sorted (stages_shown rt i (map running ps) c)"
proof -
  have eq: "stages_shown rt i (map running ps) c = map (\<lambda>p. progress_stage rt (Some (JNum p))) ps"
    using assms(1-3) by (rule stages_shown_running)
  have "sorted (map (\<lambda>p. progress_stage rt (Some (JNum p))) ps)"
    using assms(4) by (induction ps) (auto simp: progress_stage_mono)
  with eq show ?thesis by simp
qed

theorem stage_follows_reported_progress_witness:
  "stages_shown plain_runtime 0 (map running [0.1, 0.25, 0.25, 0.8]) polling = [0, 1, 1, 4] \<and>
   sorted (stages_shown plain_runtime 0 (map running [0.1, 0.25, 0.25, 0.8]) polling)"
  using stage_follows_reported_progress
    [of polling 0 "Some (JStr (lit ''j1''))" "[0.1, 0.25, 0.25, 0.8]" plain_runtime]
  by (simp add: polling_state progress_stage_num)

text \<open>
  C5 as stated fails: after an answer with progress 0.5 the page shows stage 2, and
  after a following answer with progress 0.1 it shows stage 0.
\<close>

theorem stage_regresses_counterexample:
  "stages_shown plain_runtime 0 [running 0.5, running 0.1] polling = [2, 0] \<and>
   \<not> sorted (stages_shown plain_runtime 0 [running 0.5, running 0.1] polling)"
  by (simp add: polling_state poll_tick_running progress_stage_num)

section \<open>The client: polling\<close>

text \<open>
  C6. When the \<open>fetch\<close> of a polling tick throws, the page is left as it was: the
  error is not set, loading is not cleared, the interval keeps running, and its next
  tick sends the status request again.
\<close>

theorem poll_network_error_is_swallowed:
  assumes "map_of (pollIntervals c) i = Some jid"
  shows "poll_tick rt i (Inl err) c = (c, [poll_request rt jid]) \<and>
         error (fst (poll_tick rt i (Inl err) c)) = error c \<and>
         isLoading (fst (poll_tick rt i (Inl err) c)) = isLoading c \<and>
         map_of (pollIntervals (fst (poll_tick rt i (Inl err) c))) i = Some jid \<and>
         snd (poll_tick rt i outcome (fst (poll_tick rt i (Inl err) c))) = [poll_request rt jid]"
  using assms by (simp add: poll_tick_def poll_callback_def)

theorem poll_network_error_is_swallowed_witness:
  "poll_tick plain_runtime 0 network_error polling =
     (polling, [poll_request plain_runtime (Some (JStr (lit ''j1'')))]) \<and>
   error (fst (poll_tick plain_runtime 0 network_error polling)) = JNull \<and>
   isLoading (fst (poll_tick plain_runtime 0 network_error polling)) \<and>
   snd (poll_tick plain_runtime 0 (running 0.5) (fst (poll_tick plain_runtime 0 network_error polling))) =
     [poll_request plain_runtime (Some (JStr (lit ''j1'')))]"
proof -
  have active: "map_of (pollIntervals polling) 0 = Some (Some (JStr (lit ''j1'')))"
    by (simp add: polling_state)
  have cells: "error polling = JNull" "isLoading polling"
    by (simp_all add: polling_state)
  from poll_network_error_is_swallowed
    [OF active, of plain_runtime "Error (lit ''Failed to fetch'')" "running 0.5"]
  show ?thesis
    unfolding network_error_def using cells by metis
qed

text \<open>
  C3 fails on the code. On the page that polls job \<open>j1\<close>, unmounting leaves the polling
  interval running: its next tick sends the status request, and the interval is still
  there afterwards.
\<close>

theorem polling_survives_unmount:
  "map_of (pollIntervals (unmount polling)) 0 = Some (Some (JStr (lit ''j1''))) \<and>
   snd (poll_tick plain_runtime 0 (running 0.5) (unmount polling)) =
     [poll_request plain_runtime (Some (JStr (lit ''j1'')))] \<and>
   pollIntervals (fst (poll_tick plain_runtime 0 (running 0.5) (unmount polling))) =
     pollIntervals polling"
  by (simp add: polling_state unmount_def poll_tick_def poll_callback_def running_def ok_def
        read_prop_def get_def setState_def useEffects_def)

section \<open>The client: submission\<close>

lemma trim_blank:
  assumes "\<forall>u\<in>set s. is_whitespace u"
  shows "trim s = []"
proof -
  from assms have blank: "dropWhile is_whitespace s = []"
    by simp
  show ?thesis
    by (simp only: trim_def blank rev.simps dropWhile.simps)
qed

text \<open>
  C8. With a topic that is empty or made of whitespace only, \<open>handleSubmit\<close> changes
  nothing and sends no request.
\<close>

theorem blank_topic_submit_is_noop:
  assumes "\<forall>u\<in>set (topic c). is_whitespace u"
  shows "handleSubmit c = (c, [])"
  using assms by (simp add: handleSubmit_def trim_blank)

theorem blank_topic_submit_is_noop_witness:
  "handleSubmit blank_page = (blank_page, []) \<and> handleSubmit initial = (initial, [])"
proof -
  have t: "topic blank_page = [0x0020, 0x0009, 0x00A0, 0x000A]"
    by (simp add: blank_page_def onChange_def setState_def initial_def)
  have w: "\<forall>u\<in>set (topic blank_page). is_whitespace u"
    by (simp add: t is_whitespace_def)
  have e: "\<forall>u\<in>set (topic initial). is_whitespace u"
    by (simp add: initial_def)
  show ?thesis
    using blank_topic_submit_is_noop [OF w] blank_topic_submit_is_noop [OF e] by simp
qed

section \<open>The client: one job at a time\<close>

lemma useEffects_cells [simp]:
  "inFlight (useEffects c) = inFlight c"
  "pollIntervals (useEffects c) = pollIntervals c"
  "mounted (useEffects c) = mounted c"
  "isLoading (useEffects c) = isLoading c"
  by (simp_all add: useEffects_def)

lemma one_job_useEffects [simp]: "one_job (useEffects c) = one_job c"
  by (simp add: one_job_def)

lemma setState_cells:
  assumes "\<And>s. inFlight (f s) = inFlight s" and "\<And>s. pollIntervals (f s) = pollIntervals s"
    and "\<And>s. mounted (f s) = mounted s"
  shows "inFlight (setState f d) = inFlight d" and "pollIntervals (setState f d) = pollIntervals d"
    and "mounted (setState f d) = mounted d"
  using assms by (simp_all add: setState_def)

lemma submit_catch_cells [simp]:
  "inFlight (submit_catch err d) = inFlight d"
  "pollIntervals (submit_catch err d) = pollIntervals d"
  "mounted (submit_catch err d) = mounted d"
  "isLoading (submit_catch err d) = (isLoading d \<and> \<not> mounted d)"
  by (auto simp: submit_catch_def setState_def)

lemma single_interval_cleared:
  assumes "length xs \<le> 1" and "map_of xs i = Some j"
  shows "filter (\<lambda>t. fst t \<noteq> i) xs = []"
proof (cases xs)
  case Nil
  then show ?thesis by simp
next
  case (Cons x ys)
  with assms(1) have "ys = []" by simp
  with Cons assms(2) show ?thesis by (cases x) (simp split: if_splits)
qed

lemma one_job_initial: "one_job initial"
  by (simp add: one_job_def initial_def)

lemma one_job_onChange: "one_job c \<Longrightarrow> one_job (onChange v c)"
  by (simp add: one_job_def onChange_def setState_def)

lemma one_job_fetchServerStatus: "one_job c \<Longrightarrow> one_job (fetchServerStatus outcome c)"
  unfolding fetchServerStatus_def Let_def
  by (simp add: one_job_def setState_def split: sum.splits)

lemma one_job_unmount: "one_job c \<Longrightarrow> one_job (unmount c)"
  by (simp add: one_job_def unmount_def)

lemma one_job_tick: "one_job c \<Longrightarrow> one_job (tick c)"
  by (simp add: one_job_def tick_def setState_def)

lemma one_job_handleSubmit:
  assumes "one_job c" and "form_shown c"
  shows "one_job (fst (handleSubmit c))"
proof -
  from assms have idle: "inFlight c = 0" "pollIntervals c = []" "mounted c"
    by (auto simp: one_job_def form_shown_def)
  then show ?thesis
    using assms(1) by (simp add: handleSubmit_def one_job_def setState_def)
qed

lemma resume_inFlight: "inFlight (handleSubmit_resume rt outcome c) = inFlight c - 1"
  unfolding handleSubmit_resume_def Let_def
  by (simp add: setState_cells startPollingJobStatus_def split: sum.splits)

lemma resume_mounted: "mounted (handleSubmit_resume rt outcome c) = mounted c"
  unfolding handleSubmit_resume_def Let_def
  by (simp add: setState_cells startPollingJobStatus_def split: sum.splits)

lemma resume_pollIntervals:
  "pollIntervals (handleSubmit_resume rt outcome c) = pollIntervals c \<or>
   (\<exists>jid. pollIntervals (handleSubmit_resume rt outcome c) = pollIntervals c @ [(nextIntervalId c, jid)]) \<and>
   isLoading (handleSubmit_resume rt outcome c) = isLoading c"
  unfolding handleSubmit_resume_def Let_def
  by (simp add: setState_cells startPollingJobStatus_def setState_def split: sum.splits)

lemma one_job_resume:
  assumes "one_job c" and "0 < inFlight c"
  shows "one_job (handleSubmit_resume rt outcome c)"
proof -
  let ?d = "handleSubmit_resume rt outcome c"
  from assms have one: "inFlight c = 1" and none: "pollIntervals c = []"
    by (auto simp: one_job_def)
  from assms one have loading: "mounted c \<longrightarrow> isLoading c"
    by (simp add: one_job_def)
  have idle: "inFlight ?d = 0"
    by (simp add: resume_inFlight one)
  from resume_pollIntervals [of rt outcome c]
  have "pollIntervals ?d = [] \<or> length (pollIntervals ?d) = 1 \<and> isLoading ?d = isLoading c"
    by (auto simp: none)
  then show ?thesis
    using idle loading by (auto simp: one_job_def resume_mounted)
qed

lemma poll_callback_inFlight: "inFlight (poll_callback rt i outcome c) = inFlight c"
  unfolding poll_callback_def Let_def
  by (simp add: setState_def clearInterval_def split: sum.splits)

lemma poll_callback_mounted: "mounted (poll_callback rt i outcome c) = mounted c"
  unfolding poll_callback_def Let_def
  by (simp add: setState_def clearInterval_def split: sum.splits)

lemma poll_callback_pollIntervals:
  "pollIntervals (poll_callback rt i outcome c) = pollIntervals c \<and>
     isLoading (poll_callback rt i outcome c) = isLoading c \<or>
   pollIntervals (poll_callback rt i outcome c) = filter (\<lambda>t. fst t \<noteq> i) (pollIntervals c)"
  unfolding poll_callback_def Let_def
  by (simp add: setState_def clearInterval_def split: sum.splits)

lemma one_job_poll:
  assumes "one_job c"
  shows "one_job (fst (poll_tick rt i outcome c))"
proof (cases "map_of (pollIntervals c) i")
  case None
  with assms show ?thesis by (simp add: poll_tick_def)
next
  case (Some jid)
  let ?d = "poll_callback rt i outcome c"
  from assms have short: "length (pollIntervals c) \<le> 1"
    by (simp add: one_job_def)
  from short Some have cleared: "filter (\<lambda>t. fst t \<noteq> i) (pollIntervals c) = []"
    by (rule single_interval_cleared)
  from Some have "pollIntervals c \<noteq> []" by auto
  with assms have idle: "inFlight c = 0" and loading: "mounted c \<longrightarrow> isLoading c"
    by (auto simp: one_job_def)
  from poll_callback_pollIntervals [of rt i outcome c]
  have "pollIntervals ?d = pollIntervals c \<and> isLoading ?d = isLoading c \<or> pollIntervals ?d = []"
    by (simp add: cleared)
  then have "one_job ?d"
    using short idle loading
    by (auto simp: one_job_def poll_callback_inFlight poll_callback_mounted)
  with Some show ?thesis by (simp add: poll_tick_def)
qed

lemma reachable_one_job: "reachable rt c \<Longrightarrow> one_job c"
proof (induction rule: reachable.induct)
  case start
  show ?case by (rule one_job_initial)
next
  case (change c v)
  then show ?case by (simp add: one_job_onChange)
next
  case (submit c)
  then show ?case by (simp add: one_job_handleSubmit)
next
  case (answer c outcome)
  then show ?case by (simp add: one_job_resume)
next
  case (health c outcome)
  then show ?case by (simp add: one_job_fetchServerStatus)
next
  case (poll c i outcome)
  then show ?case by (simp add: one_job_poll)
next
  case (second c)
  then show ?case by (simp add: one_job_tick)
next
  case (leave c)
  then show ?case by (simp add: one_job_unmount)
qed

text \<open>
  C9. At most one submit request is in flight at a time: in every state that the page
  reaches, at most one submission waits for its answer, and while one waits the input
  form, through which alone \<open>handleSubmit\<close> is called, is not shown, so that a further
  submission is not taken and no second request is sent.
\<close>

theorem one_submission_in_flight:
  assumes "reachable rt c"
  shows "inFlight c \<le> 1 \<and> (inFlight c = 1 \<longrightarrow> \<not> form_shown c)"
proof -
  from assms have "one_job c"
    by (rule reachable_one_job)
  then show ?thesis
    by (auto simp: one_job_def form_shown_def)
qed

theorem one_submission_in_flight_witness:
  "reachable plain_runtime submitted \<and> inFlight submitted = 1 \<and> \<not> form_shown submitted"
proof -
  have shown: "form_shown initial" "form_shown (onChange (lit ''ai'') initial)"
    by (simp_all add: form_shown_def onChange_def setState_def initial_def)
  have "reachable plain_runtime (onChange (lit ''ai'') initial)"
    using reachable.start shown(1) by (rule reachable.change)
  then have r: "reachable plain_runtime submitted"
    unfolding submitted_def using shown(2) by (rule reachable.submit)
  have "inFlight submitted = 1"
    by (simp add: submitted_state)
  with r one_submission_in_flight [OF r] show ?thesis
    by simp
qed

end
